theory Spec2Isabelle
  imports Main "HOL-Library.Monad_Syntax"
begin

section \<open>Python values held by connectors\<close>

text \<open>
  A connector's \<open>value\<close> attribute starts as \<open>None\<close> and is later assigned booleans
  (the results of \<open>bit\<close> and of \<open>not\<close>) or the integer literal \<open>0\<close>
  (\<open>F0.Cin.set(0)\<close>). The three kinds of value are kept apart, since
  \<open>==\<close>, \<open>and\<close>, \<open>or\<close> and \<open>not\<close> treat them as Python does.
\<close>

datatype pyval = PNone | PBool bool | PInt int

text \<open>Python's \<open>==\<close>: a bool is the integer 0 or 1, \<open>None\<close> equals only itself.\<close>

fun py_eq :: "pyval \<Rightarrow> pyval \<Rightarrow> bool" where
  "py_eq PNone PNone = True"
| "py_eq (PBool x) (PBool y) = (x = y)"
| "py_eq (PInt i) (PInt j) = (i = j)"
| "py_eq (PBool x) (PInt j) = ((if x then 1 else 0) = j)"
| "py_eq (PInt i) (PBool y) = (i = (if y then 1 else 0))"
| "py_eq _ _ = False"

fun truthy :: "pyval \<Rightarrow> bool" where
  "truthy PNone = False"
| "truthy (PBool x) = x"
| "truthy (PInt i) = (i \<noteq> 0)"

definition py_not :: "pyval \<Rightarrow> pyval" where
  "py_not x = PBool (\<not> truthy x)"

text \<open>\<open>x and y\<close> and \<open>x or y\<close> return one of their operands (short circuit).\<close>

definition py_and :: "pyval \<Rightarrow> pyval \<Rightarrow> pyval" where
  "py_and x y = (if truthy x then y else x)"

definition py_or :: "pyval \<Rightarrow> pyval \<Rightarrow> pyval" where
  "py_or x y = (if truthy x then x else y)"

text \<open>\<open>int(x)\<close>; \<open>int(None)\<close> raises TypeError (\<open>None\<close> here).\<close>

fun py_int :: "pyval \<Rightarrow> int option" where
  "py_int PNone = None"
| "py_int (PBool x) = Some (if x then 1 else 0)"
| "py_int (PInt i) = Some i"

text \<open>\<open>str\<close> of an integer: its decimal digits.\<close>

fun str_nat :: "nat \<Rightarrow> string" where
  "str_nat n = (if n < 10 then [char_of (48 + n)]
                else str_nat (n div 10) @ [char_of (48 + n mod 10)])"

declare str_nat.simps [simp del]

definition str_int :: "int \<Rightarrow> string" where
  "str_int i = (if i < 0 then CHR ''-'' # str_nat (nat (- i)) else str_nat (nat i))"

section \<open>The object store: connectors and logic circuits\<close>

text \<open>
  Objects are kept in two tables, indexed by the order of their creation. A connector
  refers to its owner and to its connected inputs by index; a circuit refers to its
  connectors by index. The \<open>name\<close> of a circuit is a string, or (in \<open>increment\<close> and
  \<open>PassTrough\<close>) another circuit object.
\<close>

datatype pyname = NameStr string | NameObj nat

record connector =
  cvalue :: pyval
  cowner :: nat
  cname :: string
  cmonitor :: bool
  cconnects :: "nat list"
  cactivates :: bool

text \<open>
  The class of a circuit with its connector attributes. Only \<open>Not\<close>, \<open>And\<close> and
  \<open>Or\<close> override \<open>evaluate\<close>; \<open>Xor\<close>, \<open>HalfAdder\<close> and \<open>FullAdder\<close> inherit the
  one of \<open>LC\<close>, which returns at once.
\<close>

datatype lc =
    LC_f
  | Not_f nat nat
  | And_f nat nat nat
  | Or_f nat nat nat
  | Xor_f nat nat nat
  | HalfAdder_f nat nat nat nat
  | FullAdder_f nat nat nat nat nat

record component =
  lname :: pyname
  lfields :: lc

text \<open>A line written by \<open>print\<close>: the monitor message of a connector, or a string.\<close>

datatype line = ConnLine pyname string pyval | StrLine string

text \<open>
  \<open>printed\<close> is the standard output so far; \<open>evaluated\<close> records every call of an
  \<open>evaluate\<close> method (the circuit it was called on), so that "evaluate was not called"
  can be stated.
\<close>

record circuit =
  conns :: "connector list"
  comps :: "component list"
  printed :: "line list"
  evaluated :: "nat list"

definition empty_circuit :: circuit where
  "empty_circuit = \<lparr>conns = [], comps = [], printed = [], evaluated = []\<rparr>"

definition val :: "circuit \<Rightarrow> nat \<Rightarrow> pyval" where
  "val st c = cvalue (conns st ! c)"

subsection \<open>Connector\<close>

definition Connector_init :: "nat \<Rightarrow> string \<Rightarrow> bool \<Rightarrow> bool \<Rightarrow> circuit \<Rightarrow> nat \<times> circuit" where
  "Connector_init ownr nm act mon st =
     (length (conns st),
      st\<lparr>conns := conns st @
            [\<lparr>cvalue = PNone, cowner = ownr, cname = nm, cmonitor = mon,
              cconnects = [], cactivates = act\<rparr>]\<rparr>)"

text \<open>\<open>connect\<close>: a single input is first wrapped in a list; here it is always a list.\<close>

definition Connector_connect :: "nat \<Rightarrow> nat list \<Rightarrow> circuit \<Rightarrow> circuit" where
  "Connector_connect c inputs st =
     st\<lparr>conns := (conns st)[c := (conns st ! c)\<lparr>cconnects := cconnects (conns st ! c) @ inputs\<rparr>]\<rparr>"

text \<open>
  \<open>Connector.set\<close> and the \<open>evaluate\<close> methods call each other. The first argument
  bounds the depth of nested \<open>set\<close> calls, as the interpreter's recursion limit does;
  \<open>None\<close> is the RecursionError. \<open>set_each\<close> is the loop
  \<open>for con in self.connects: con.set(value)\<close>.
\<close>

fun Connector_set :: "nat \<Rightarrow> nat \<Rightarrow> pyval \<Rightarrow> circuit \<Rightarrow> circuit option"
and evaluate :: "nat \<Rightarrow> nat \<Rightarrow> circuit \<Rightarrow> circuit option"
and set_each :: "nat \<Rightarrow> nat list \<Rightarrow> pyval \<Rightarrow> circuit \<Rightarrow> circuit option"
where
  "Connector_set 0 c v st = None"
| "Connector_set (Suc n) c v st =
    (if py_eq (cvalue (conns st ! c)) v then Some st
     else do {
       let st1 = st\<lparr>conns := (conns st)[c := (conns st ! c)\<lparr>cvalue := v\<rparr>]\<rparr>;
       st2 \<leftarrow> (if cactivates (conns st1 ! c) then evaluate n (cowner (conns st1 ! c)) st1
               else Some st1);
       let st3 = (if cmonitor (conns st2 ! c)
                  then st2\<lparr>printed := printed st2 @
                         [ConnLine (lname (comps st2 ! cowner (conns st2 ! c)))
                                   (cname (conns st2 ! c)) (cvalue (conns st2 ! c))]\<rparr>
                  else st2);
       set_each n (cconnects (conns st3 ! c)) v st3
     })"
| "evaluate n k st =
    (let st' = st\<lparr>evaluated := evaluated st @ [k]\<rparr> in
     case lfields (comps st' ! k) of
       Not_f a b \<Rightarrow> Connector_set n b (py_not (cvalue (conns st' ! a))) st'
     | And_f a b c \<Rightarrow>
         Connector_set n c (py_and (cvalue (conns st' ! a)) (cvalue (conns st' ! b))) st'
     | Or_f a b c \<Rightarrow>
         Connector_set n c (py_or (cvalue (conns st' ! a)) (cvalue (conns st' ! b))) st'
     | _ \<Rightarrow> Some st')"
| "set_each n [] v st = Some st"
| "set_each n (d # ds) v st =
    (case Connector_set n d v st of None \<Rightarrow> None | Some st' \<Rightarrow> set_each n ds v st')"

subsection \<open>The classes of circuits\<close>

definition LC_init :: "pyname \<Rightarrow> circuit \<Rightarrow> nat \<times> circuit" where
  "LC_init nm st =
     (length (comps st), st\<lparr>comps := comps st @ [\<lparr>lname = nm, lfields = LC_f\<rparr>]\<rparr>)"

definition set_fields :: "nat \<Rightarrow> lc \<Rightarrow> circuit \<Rightarrow> circuit" where
  "set_fields k f st = st\<lparr>comps := (comps st)[k := (comps st ! k)\<lparr>lfields := f\<rparr>]\<rparr>"

text \<open>Each constructor returns the new object with the connectors a caller uses.\<close>

definition Not_init :: "pyname \<Rightarrow> circuit \<Rightarrow> (nat \<times> nat \<times> nat) \<times> circuit" where
  "Not_init nm st =
     (let (k, st) = LC_init nm st;
          (a, st) = Connector_init k ''A'' True False st;
          (b, st) = Connector_init k ''B'' False False st
      in ((k, a, b), set_fields k (Not_f a b) st))"

definition Gate2_init :: "pyname \<Rightarrow> circuit \<Rightarrow> (nat \<times> nat \<times> nat \<times> nat) \<times> circuit" where
  "Gate2_init nm st =
     (let (k, st) = LC_init nm st;
          (a, st) = Connector_init k ''A'' True False st;
          (b, st) = Connector_init k ''B'' True False st;
          (c, st) = Connector_init k ''C'' False False st
      in ((k, a, b, c), st))"

definition And_init :: "pyname \<Rightarrow> circuit \<Rightarrow> (nat \<times> nat \<times> nat \<times> nat) \<times> circuit" where
  "And_init nm st =
     (let ((k, a, b, c), st) = Gate2_init nm st
      in ((k, a, b, c), set_fields k (And_f a b c) st))"

definition Or_init :: "pyname \<Rightarrow> circuit \<Rightarrow> (nat \<times> nat \<times> nat \<times> nat) \<times> circuit" where
  "Or_init nm st =
     (let ((k, a, b, c), st) = Gate2_init nm st
      in ((k, a, b, c), set_fields k (Or_f a b c) st))"

definition Xor_init :: "pyname \<Rightarrow> circuit \<Rightarrow> (nat \<times> nat \<times> nat \<times> nat) \<times> circuit" where
  "Xor_init nm st =
     (let ((k, a, b, c), st) = Gate2_init nm st;
          ((a1, a1A, a1B, a1C), st) = And_init (NameStr ''A1'') st;
          ((a2, a2A, a2B, a2C), st) = And_init (NameStr ''A2'') st;
          ((i1, i1A, i1B), st) = Not_init (NameStr ''I1'') st;
          ((i2, i2A, i2B), st) = Not_init (NameStr ''I2'') st;
          ((o1, o1A, o1B, o1C), st) = Or_init (NameStr ''O1'') st;
          st = Connector_connect a [a1A, i2A] st;
          st = Connector_connect b [i1A, a2A] st;
          st = Connector_connect i1B [a1B] st;
          st = Connector_connect i2B [a2B] st;
          st = Connector_connect a1C [o1A] st;
          st = Connector_connect a2C [o1B] st;
          st = Connector_connect o1C [c] st
      in ((k, a, b, c), set_fields k (Xor_f a b c) st))"

definition HalfAdder_init ::
  "pyname \<Rightarrow> circuit \<Rightarrow> (nat \<times> nat \<times> nat \<times> nat \<times> nat) \<times> circuit" where
  "HalfAdder_init nm st =
     (let (k, st) = LC_init nm st;
          (a, st) = Connector_init k ''A'' True False st;
          (b, st) = Connector_init k ''B'' True False st;
          (s, st) = Connector_init k ''S'' False False st;
          (c, st) = Connector_init k ''C'' False False st;
          ((x1, x1A, x1B, x1C), st) = Xor_init (NameStr ''X1'') st;
          ((a1, a1A, a1B, a1C), st) = And_init (NameStr ''A1'') st;
          st = Connector_connect a [x1A, a1A] st;
          st = Connector_connect b [x1B, a1B] st;
          st = Connector_connect x1C [s] st;
          st = Connector_connect a1C [c] st
      in ((k, a, b, s, c), set_fields k (HalfAdder_f a b s c) st))"

type_synonym fulladder = "nat \<times> nat \<times> nat \<times> nat \<times> nat \<times> nat"

definition FullAdder_init :: "pyname \<Rightarrow> circuit \<Rightarrow> fulladder \<times> circuit" where
  "FullAdder_init nm st =
     (let (k, st) = LC_init nm st;
          (a, st) = Connector_init k ''A'' True True st;
          (b, st) = Connector_init k ''B'' True True st;
          (cin, st) = Connector_init k ''Cin'' True True st;
          (s, st) = Connector_init k ''S'' False True st;
          (cout, st) = Connector_init k ''Cout'' False True st;
          ((h1, h1A, h1B, h1S, h1C), st) = HalfAdder_init (NameStr ''H1'') st;
          ((h2, h2A, h2B, h2S, h2C), st) = HalfAdder_init (NameStr ''H2'') st;
          ((o1, o1A, o1B, o1C), st) = Or_init (NameStr ''O1'') st;
          st = Connector_connect a [h1A] st;
          st = Connector_connect b [h1B] st;
          st = Connector_connect cin [h2A] st;
          st = Connector_connect h1S [h2B] st;
          st = Connector_connect h1C [o1B] st;
          st = Connector_connect h2C [o1A] st;
          st = Connector_connect h2S [s] st;
          st = Connector_connect o1C [cout] st
      in ((k, a, b, cin, s, cout), set_fields k (FullAdder_f a b cin s cout) st))"

section \<open>Bit strings\<close>

text \<open>
  The arguments are Python sequences: the callers pass strings, but nothing stops a
  list of connector values being passed. \<open>x[i] == '1'\<close> raises IndexError past the
  end, and no connector value equals the string \<open>'1'\<close>.
\<close>

datatype pyseq = Str string | Lst "pyval list"

fun bit :: "pyseq \<Rightarrow> nat \<Rightarrow> bool option" where
  "bit (Str x) i = (if i < length x then Some (x ! i = CHR ''1'') else None)"
| "bit (Lst x) i = (if i < length x then Some False else None)"

text \<open>\<open>c.set(bit(x, i))\<close>\<close>

definition set_bit :: "nat \<Rightarrow> nat \<Rightarrow> pyseq \<Rightarrow> nat \<Rightarrow> circuit \<Rightarrow> circuit option" where
  "set_bit n c x i st =
     (case bit x i of None \<Rightarrow> None | Some v \<Rightarrow> Connector_set n c (PBool v) st)"

text \<open>The local function \<open>toString\<close> of \<open>PassTrough\<close> and of \<open>Substraction\<close>.\<close>

fun toString :: "pyval list \<Rightarrow> string option" where
  "toString [] = Some []"
| "toString (x # xs) =
     (case py_int x of None \<Rightarrow> None
      | Some i \<Rightarrow> (case toString xs of None \<Rightarrow> None | Some s \<Rightarrow> Some (str_int i @ s)))"


section \<open>The operations on 8-bit strings\<close>

text \<open>The attributes of a full adder and of an inverter, by name.\<close>

definition obj_of :: "fulladder \<Rightarrow> nat" where
  "obj_of F = (case F of (k, a, b, cin, s, cout) \<Rightarrow> k)"

definition A_of :: "fulladder \<Rightarrow> nat" where
  "A_of F = (case F of (k, a, b, cin, s, cout) \<Rightarrow> a)"

definition B_of :: "fulladder \<Rightarrow> nat" where
  "B_of F = (case F of (k, a, b, cin, s, cout) \<Rightarrow> b)"

definition Cin_of :: "fulladder \<Rightarrow> nat" where
  "Cin_of F = (case F of (k, a, b, cin, s, cout) \<Rightarrow> cin)"

definition S_of :: "fulladder \<Rightarrow> nat" where
  "S_of F = (case F of (k, a, b, cin, s, cout) \<Rightarrow> s)"

definition Cout_of :: "fulladder \<Rightarrow> nat" where
  "Cout_of F = (case F of (k, a, b, cin, s, cout) \<Rightarrow> cout)"

definition Not_obj_of :: "nat \<times> nat \<times> nat \<Rightarrow> nat" where
  "Not_obj_of F = (case F of (k, a, b) \<Rightarrow> k)"

definition NotA_of :: "nat \<times> nat \<times> nat \<Rightarrow> nat" where
  "NotA_of F = (case F of (k, a, b) \<Rightarrow> a)"

definition NotB_of :: "nat \<times> nat \<times> nat \<Rightarrow> nat" where
  "NotB_of F = (case F of (k, a, b) \<Rightarrow> b)"

text \<open>
  Every operation builds its own circuit from new objects, which nothing else refers
  to; so each starts from the empty store, and returns its result with the lines it
  printed. The first half of each function (the construction and the \<open>connect\<close>
  calls) is \<open>f_circuit\<close>, the second half (the \<open>set\<close> calls and the result) is \<open>f\<close>.
\<close>

text \<open>\<open>addcarry\<close>: eight full adders, the carry rippling from \<open>F0\<close> to \<open>F7\<close>.\<close>

definition addcarry_circuit :: "(fulladder \<times> fulladder \<times> fulladder \<times> fulladder \<times>
    fulladder \<times> fulladder \<times> fulladder \<times> fulladder) \<times> circuit" where
  "addcarry_circuit =
     (let st = empty_circuit;
          (F0, st) = FullAdder_init (NameStr ''F0'') st;
          (F1, st) = FullAdder_init (NameStr ''F1'') st;
          st = Connector_connect (Cout_of F0) [Cin_of F1] st;
          (F2, st) = FullAdder_init (NameStr ''F2'') st;
          st = Connector_connect (Cout_of F1) [Cin_of F2] st;
          (F3, st) = FullAdder_init (NameStr ''F3'') st;
          st = Connector_connect (Cout_of F2) [Cin_of F3] st;
          (F4, st) = FullAdder_init (NameStr ''F4'') st;
          st = Connector_connect (Cout_of F3) [Cin_of F4] st;
          (F5, st) = FullAdder_init (NameStr ''F5'') st;
          st = Connector_connect (Cout_of F4) [Cin_of F5] st;
          (F6, st) = FullAdder_init (NameStr ''F6'') st;
          st = Connector_connect (Cout_of F5) [Cin_of F6] st;
          (F7, st) = FullAdder_init (NameStr ''F7'') st;
          st = Connector_connect (Cout_of F6) [Cin_of F7] st
      in ((F0, F1, F2, F3, F4, F5, F6, F7), st))"

definition addcarry :: "nat \<Rightarrow> pyseq \<Rightarrow> pyseq \<Rightarrow> (pyval list \<times> line list) option" where
  "addcarry n a b =
     (let ((F0, F1, F2, F3, F4, F5, F6, F7), st) = addcarry_circuit
      in do {
        st \<leftarrow> Connector_set n (Cin_of F0) (PInt 0) st;
        st \<leftarrow> set_bit n (A_of F0) a 7 st;
        st \<leftarrow> set_bit n (B_of F0) b 7 st;
        st \<leftarrow> set_bit n (A_of F1) a 6 st;
        st \<leftarrow> set_bit n (B_of F1) b 6 st;
        st \<leftarrow> set_bit n (A_of F2) a 5 st;
        st \<leftarrow> set_bit n (B_of F2) b 5 st;
        st \<leftarrow> set_bit n (A_of F3) a 4 st;
        st \<leftarrow> set_bit n (B_of F3) b 4 st;
        st \<leftarrow> set_bit n (A_of F4) a 3 st;
        st \<leftarrow> set_bit n (B_of F4) b 3 st;
        st \<leftarrow> set_bit n (A_of F5) a 2 st;
        st \<leftarrow> set_bit n (B_of F5) b 2 st;
        st \<leftarrow> set_bit n (A_of F6) a 1 st;
        st \<leftarrow> set_bit n (B_of F6) b 1 st;
        st \<leftarrow> set_bit n (A_of F7) a 0 st;
        st \<leftarrow> set_bit n (B_of F7) b 0 st;
        Some ([val st (Cout_of F7), val st (S_of F7), val st (S_of F6), val st (S_of F5),
               val st (S_of F4), val st (S_of F3), val st (S_of F2), val st (S_of F1),
               val st (S_of F0)], printed st)
      })"

text \<open>
  \<open>increment\<close>: as \<open>addcarry\<close>, but each full adder is named by a new \<open>And\<close> gate,
  and \<open>evaluate\<close> is called on each full adder after its inputs are set.
\<close>

definition increment_circuit :: "(fulladder \<times> fulladder \<times> fulladder \<times> fulladder \<times>
    fulladder \<times> fulladder \<times> fulladder \<times> fulladder) \<times> circuit" where
  "increment_circuit =
     (let st = empty_circuit;
          ((G0, G0A, G0B, G0C), st) = And_init (NameStr ''F0'') st;
          (F0, st) = FullAdder_init (NameObj G0) st;
          ((G1, G1A, G1B, G1C), st) = And_init (NameStr ''F1'') st;
          (F1, st) = FullAdder_init (NameObj G1) st;
          st = Connector_connect (Cout_of F0) [Cin_of F1] st;
          ((G2, G2A, G2B, G2C), st) = And_init (NameStr ''F2'') st;
          (F2, st) = FullAdder_init (NameObj G2) st;
          st = Connector_connect (Cout_of F1) [Cin_of F2] st;
          ((G3, G3A, G3B, G3C), st) = And_init (NameStr ''F3'') st;
          (F3, st) = FullAdder_init (NameObj G3) st;
          st = Connector_connect (Cout_of F2) [Cin_of F3] st;
          ((G4, G4A, G4B, G4C), st) = And_init (NameStr ''F4'') st;
          (F4, st) = FullAdder_init (NameObj G4) st;
          st = Connector_connect (Cout_of F3) [Cin_of F4] st;
          ((G5, G5A, G5B, G5C), st) = And_init (NameStr ''F5'') st;
          (F5, st) = FullAdder_init (NameObj G5) st;
          st = Connector_connect (Cout_of F4) [Cin_of F5] st;
          ((G6, G6A, G6B, G6C), st) = And_init (NameStr ''F6'') st;
          (F6, st) = FullAdder_init (NameObj G6) st;
          st = Connector_connect (Cout_of F5) [Cin_of F6] st;
          ((G7, G7A, G7B, G7C), st) = And_init (NameStr ''F7'') st;
          (F7, st) = FullAdder_init (NameObj G7) st;
          st = Connector_connect (Cout_of F6) [Cin_of F7] st
      in ((F0, F1, F2, F3, F4, F5, F6, F7), st))"

definition increment :: "nat \<Rightarrow> pyseq \<Rightarrow> pyseq \<Rightarrow> (pyval list \<times> line list) option" where
  "increment n a b =
     (let ((F0, F1, F2, F3, F4, F5, F6, F7), st) = increment_circuit
      in do {
        st \<leftarrow> Connector_set n (Cin_of F0) (PInt 0) st;
        st \<leftarrow> set_bit n (A_of F0) a 7 st;
        st \<leftarrow> set_bit n (B_of F0) b 7 st;
        st \<leftarrow> evaluate n (obj_of F0) st;
        st \<leftarrow> set_bit n (A_of F1) a 6 st;
        st \<leftarrow> set_bit n (B_of F1) b 6 st;
        st \<leftarrow> evaluate n (obj_of F1) st;
        st \<leftarrow> set_bit n (A_of F2) a 5 st;
        st \<leftarrow> set_bit n (B_of F2) b 5 st;
        st \<leftarrow> evaluate n (obj_of F2) st;
        st \<leftarrow> set_bit n (A_of F3) a 4 st;
        st \<leftarrow> set_bit n (B_of F3) b 4 st;
        st \<leftarrow> evaluate n (obj_of F3) st;
        st \<leftarrow> set_bit n (A_of F4) a 3 st;
        st \<leftarrow> set_bit n (B_of F4) b 3 st;
        st \<leftarrow> evaluate n (obj_of F4) st;
        st \<leftarrow> set_bit n (A_of F5) a 2 st;
        st \<leftarrow> set_bit n (B_of F5) b 2 st;
        st \<leftarrow> evaluate n (obj_of F5) st;
        st \<leftarrow> set_bit n (A_of F6) a 1 st;
        st \<leftarrow> set_bit n (B_of F6) b 1 st;
        st \<leftarrow> evaluate n (obj_of F6) st;
        st \<leftarrow> set_bit n (A_of F7) a 0 st;
        st \<leftarrow> set_bit n (B_of F7) b 0 st;
        st \<leftarrow> evaluate n (obj_of F7) st;
        Some ([val st (Cout_of F7), val st (S_of F7), val st (S_of F6), val st (S_of F5),
               val st (S_of F4), val st (S_of F3), val st (S_of F2), val st (S_of F1),
               val st (S_of F0)], printed st)
      })"

text \<open>\<open>complementOne\<close>: eight inverters (created in the order F0, F1, F3, F2, ...).\<close>

definition complementOne_circuit :: "((nat \<times> nat \<times> nat) \<times> (nat \<times> nat \<times> nat) \<times> (nat \<times> nat \<times> nat) \<times>
    (nat \<times> nat \<times> nat) \<times> (nat \<times> nat \<times> nat) \<times> (nat \<times> nat \<times> nat) \<times> (nat \<times> nat \<times> nat) \<times>
    (nat \<times> nat \<times> nat)) \<times> circuit" where
  "complementOne_circuit =
     (let st = empty_circuit;
          (F0, st) = Not_init (NameStr ''F0'') st;
          (F1, st) = Not_init (NameStr ''F1'') st;
          (F3, st) = Not_init (NameStr ''F3'') st;
          (F2, st) = Not_init (NameStr ''F2'') st;
          (F4, st) = Not_init (NameStr ''F4'') st;
          (F5, st) = Not_init (NameStr ''F5'') st;
          (F6, st) = Not_init (NameStr ''F6'') st;
          (F7, st) = Not_init (NameStr ''F7'') st
      in ((F0, F1, F2, F3, F4, F5, F6, F7), st))"

definition complementOne :: "nat \<Rightarrow> pyseq \<Rightarrow> pyval list option" where
  "complementOne n a =
     (let ((F0, F1, F2, F3, F4, F5, F6, F7), st) = complementOne_circuit
      in do {
        st \<leftarrow> set_bit n (NotA_of F0) a 7 st;
        st \<leftarrow> evaluate n (Not_obj_of F0) st;
        st \<leftarrow> set_bit n (NotA_of F1) a 6 st;
        st \<leftarrow> evaluate n (Not_obj_of F1) st;
        st \<leftarrow> set_bit n (NotA_of F2) a 5 st;
        st \<leftarrow> evaluate n (Not_obj_of F2) st;
        st \<leftarrow> set_bit n (NotA_of F3) a 4 st;
        st \<leftarrow> evaluate n (Not_obj_of F3) st;
        st \<leftarrow> set_bit n (NotA_of F4) a 3 st;
        st \<leftarrow> evaluate n (Not_obj_of F4) st;
        st \<leftarrow> set_bit n (NotA_of F5) a 2 st;
        st \<leftarrow> evaluate n (Not_obj_of F5) st;
        st \<leftarrow> set_bit n (NotA_of F6) a 1 st;
        st \<leftarrow> evaluate n (Not_obj_of F6) st;
        st \<leftarrow> set_bit n (NotA_of F7) a 0 st;
        st \<leftarrow> evaluate n (Not_obj_of F7) st;
        Some [val st (NotB_of F7), val st (NotB_of F6), val st (NotB_of F5), val st (NotB_of F4),
               val st (NotB_of F3), val st (NotB_of F2), val st (NotB_of F1), val st (NotB_of F0)]
      })"

text \<open>
  \<open>negateNumber\<close>: the loop turns each element of \<open>complementOne(a)\<close> into the integer
  0 (when it \<open>== False\<close>) or 1, and \<open>"".join\<close> writes them as a string.
\<close>

definition negateNumber :: "nat \<Rightarrow> pyseq \<Rightarrow> (pyval list \<times> line list) option" where
  "negateNumber n a =
     do {
       result \<leftarrow> complementOne n a;
       let b = map (\<lambda>j. if py_eq j (PBool False) then (0::int) else 1) result;
       let number = concat (map str_int b);
       increment n (Str number) (Str ''00000001'')
     }"

text \<open>
  \<open>PassTrough\<close>: \<open>Not(Not("F0"))\<close> creates an inverter named \<open>"F0"\<close> and then a
  second inverter whose name is the first one; only the second is kept in \<open>F0\<close>.
\<close>

definition PassTrough_circuit :: "((nat \<times> nat \<times> nat) \<times> (nat \<times> nat \<times> nat) \<times> (nat \<times> nat \<times> nat) \<times>
    (nat \<times> nat \<times> nat) \<times> (nat \<times> nat \<times> nat) \<times> (nat \<times> nat \<times> nat) \<times> (nat \<times> nat \<times> nat) \<times>
    (nat \<times> nat \<times> nat)) \<times> circuit" where
  "PassTrough_circuit =
     (let st = empty_circuit;
          ((N0, N0A, N0B), st) = Not_init (NameStr ''F0'') st;
          (F0, st) = Not_init (NameObj N0) st;
          ((N1, N1A, N1B), st) = Not_init (NameStr ''F1'') st;
          (F1, st) = Not_init (NameObj N1) st;
          ((N3, N3A, N3B), st) = Not_init (NameStr ''F3'') st;
          (F3, st) = Not_init (NameObj N3) st;
          ((N2, N2A, N2B), st) = Not_init (NameStr ''F2'') st;
          (F2, st) = Not_init (NameObj N2) st;
          ((N4, N4A, N4B), st) = Not_init (NameStr ''F4'') st;
          (F4, st) = Not_init (NameObj N4) st;
          ((N5, N5A, N5B), st) = Not_init (NameStr ''F5'') st;
          (F5, st) = Not_init (NameObj N5) st;
          ((N6, N6A, N6B), st) = Not_init (NameStr ''F6'') st;
          (F6, st) = Not_init (NameObj N6) st;
          ((N7, N7A, N7B), st) = Not_init (NameStr ''F7'') st;
          (F7, st) = Not_init (NameObj N7) st
      in ((F0, F1, F2, F3, F4, F5, F6, F7), st))"

definition PassTrough :: "nat \<Rightarrow> pyseq \<Rightarrow> string option" where
  "PassTrough n a =
     (let ((F0, F1, F2, F3, F4, F5, F6, F7), st) = PassTrough_circuit
      in do {
        st \<leftarrow> set_bit n (NotA_of F0) a 7 st;
        st \<leftarrow> evaluate n (Not_obj_of F0) st;
        st \<leftarrow> set_bit n (NotA_of F1) a 6 st;
        st \<leftarrow> evaluate n (Not_obj_of F1) st;
        st \<leftarrow> set_bit n (NotA_of F2) a 5 st;
        st \<leftarrow> evaluate n (Not_obj_of F2) st;
        st \<leftarrow> set_bit n (NotA_of F3) a 4 st;
        st \<leftarrow> evaluate n (Not_obj_of F3) st;
        st \<leftarrow> set_bit n (NotA_of F4) a 3 st;
        st \<leftarrow> evaluate n (Not_obj_of F4) st;
        st \<leftarrow> set_bit n (NotA_of F5) a 2 st;
        st \<leftarrow> evaluate n (Not_obj_of F5) st;
        st \<leftarrow> set_bit n (NotA_of F6) a 1 st;
        st \<leftarrow> evaluate n (Not_obj_of F6) st;
        st \<leftarrow> set_bit n (NotA_of F7) a 0 st;
        st \<leftarrow> evaluate n (Not_obj_of F7) st;
        toString [val st (NotB_of F7), val st (NotB_of F6), val st (NotB_of F5), val st (NotB_of F4),
               val st (NotB_of F3), val st (NotB_of F2), val st (NotB_of F1), val st (NotB_of F0)]
      })"

text \<open>
  \<open>Substraction\<close> returns the value of \<open>print\<close>, which is \<open>None\<close>; the string is
  written to the output. The result is the returned value with everything printed.
\<close>

definition Substraction :: "nat \<Rightarrow> pyseq \<Rightarrow> pyseq \<Rightarrow> (pyval \<times> line list) option" where
  "Substraction n a b =
     do {
       (nb, out1) \<leftarrow> negateNumber n b;
       b' \<leftarrow> toString nb;
       (c, out2) \<leftarrow> addcarry n a (Str b');
       s \<leftarrow> toString c;
       Some (PNone, out1 @ out2 @ [StrLine s])
     }"

section \<open>A small store for concrete instances\<close>

text \<open>
  An \<open>And\<close> gate (connectors 0, 1, 2) and a fourth connector, holding the values
  \<open>False\<close>, \<open>True\<close>, \<open>0\<close> and \<open>1\<close>.
\<close>

definition sample_store :: circuit where
  "sample_store =
     \<lparr>conns = [\<lparr>cvalue = PBool False, cowner = 0, cname = ''A'', cmonitor = True,
                cconnects = [2], cactivates = True\<rparr>,
               \<lparr>cvalue = PBool True, cowner = 0, cname = ''B'', cmonitor = True,
                cconnects = [], cactivates = True\<rparr>,
               \<lparr>cvalue = PInt 0, cowner = 0, cname = ''C'', cmonitor = True,
                cconnects = [3], cactivates = False\<rparr>,
               \<lparr>cvalue = PInt 1, cowner = 1, cname = ''A'', cmonitor = True,
                cconnects = [], cactivates = True\<rparr>],
      comps = [\<lparr>lname = NameStr ''G'', lfields = And_f 0 1 2\<rparr>,
               \<lparr>lname = NameStr ''I'', lfields = Not_f 3 3\<rparr>],
      printed = [], evaluated = []\<rparr>"

(*DEFS-END*)

section \<open>The change guard of \<open>Connector.set\<close>\<close>

text \<open>
  Claim C7. For every connector and every value \<open>v\<close>, \<open>set(v)\<close> on a connector whose
  stored value already equals \<open>v\<close> (in the sense of \<open>==\<close>) is a complete no-op: the
  whole store is returned as it was, so no \<open>evaluate\<close> was called (\<open>evaluated\<close> is
  unchanged), nothing was printed (\<open>printed\<close> is unchanged), no connected input was
  set and the stored value is the same. One level of recursion is all the call needs.
\<close>

theorem set_same_value_is_noop:
  "py_eq (cvalue (conns st ! c)) v \<Longrightarrow> Connector_set (Suc n) c v st = Some st"
  by simp

theorem set_same_value_is_noop_witness:
  "py_eq (cvalue (conns sample_store ! 1)) (PBool True) \<and>
   Connector_set (Suc 0) 1 (PBool True) sample_store = Some sample_store"
proof -
  have h: "py_eq (cvalue (conns sample_store ! 1)) (PBool True)"
    by (simp add: sample_store_def)
  from set_same_value_is_noop [OF h] h show ?thesis by simp
qed

text \<open>
  Claim C9. The guard compares with \<open>==\<close>, so \<open>0\<close> and \<open>False\<close> (and \<open>1\<close> and
  \<open>True\<close>) are the same stored value: on a connector holding \<open>False\<close>, \<open>set(0)\<close>
  returns at once with the store unchanged (no \<open>evaluate\<close>, no output, no propagation,
  and the stored value is still the boolean), and likewise for the three other mixed
  pairs.
\<close>

theorem set_bool_int_equal_is_noop:
  "(cvalue (conns st ! c) = PBool False \<longrightarrow> Connector_set (Suc n) c (PInt 0) st = Some st) \<and>
   (cvalue (conns st ! c) = PBool True \<longrightarrow> Connector_set (Suc n) c (PInt 1) st = Some st) \<and>
   (cvalue (conns st ! c) = PInt 0 \<longrightarrow> Connector_set (Suc n) c (PBool False) st = Some st) \<and>
   (cvalue (conns st ! c) = PInt 1 \<longrightarrow> Connector_set (Suc n) c (PBool True) st = Some st)"
  by simp

theorem set_bool_int_equal_is_noop_witness:
  "cvalue (conns sample_store ! 0) = PBool False \<and>
   Connector_set (Suc 0) 0 (PInt 0) sample_store = Some sample_store \<and>
   cvalue (conns sample_store ! 1) = PBool True \<and>
   Connector_set (Suc 0) 1 (PInt 1) sample_store = Some sample_store \<and>
   cvalue (conns sample_store ! 2) = PInt 0 \<and>
   Connector_set (Suc 0) 2 (PBool False) sample_store = Some sample_store \<and>
   cvalue (conns sample_store ! 3) = PInt 1 \<and>
   Connector_set (Suc 0) 3 (PBool True) sample_store = Some sample_store"
proof -
  have h0: "cvalue (conns sample_store ! 0) = PBool False"
    and h1: "cvalue (conns sample_store ! 1) = PBool True"
    and h2: "cvalue (conns sample_store ! 2) = PInt 0"
    and h3: "cvalue (conns sample_store ! 3) = PInt 1"
    by (simp_all add: sample_store_def)
  from set_bool_int_equal_is_noop [of sample_store 0 0]
       set_bool_int_equal_is_noop [of sample_store 1 0]
       set_bool_int_equal_is_noop [of sample_store 2 0]
       set_bool_int_equal_is_noop [of sample_store 3 0]
       h0 h1 h2 h3
  show ?thesis by blast
qed

end
